theory Spec2Isabelle
  imports Main
begin

section \<open>Registering a chart repository: \<open>cmd/helm/repo_add.go\<close>\<close>

text \<open>
  The development embeds \<open>addRepository\<close> of \<open>cmd/helm/repo_add.go\<close>. The function is a
  straight line of calls into collaborators (the registry store \<open>pkg/repo\<close>, the path
  helper \<open>helmpath.Home\<close>, the index fetcher and the file lock), each of which may make it
  return early. The embedding keeps that shape: a world (the files on disk and the list
  of operations performed so far) is passed through the calls, every early return is a
  branch, and whatever the function cannot control (the remote side, other invocations
  working on the same registry file, the state of the lock, I/O failures) is read from
  an environment record.
\<close>

subsection \<open>Data\<close>

type_synonym path = string

text \<open>\<open>repo.Entry\<close> as the struct literal in \<open>addRepository\<close> fills it.\<close>

record Entry =
  Name :: string
  Cache :: string
  URL :: string
  Username :: string
  Password :: string
  CertFile :: string
  KeyFile :: string
  CAFile :: string

text \<open>
  \<open>helmpath.Home\<close> is used through three methods only; its definition is not part of the
  source unit, so the three results are taken as they come: \<open>home.RepositoryFile()\<close>,
  \<open>home.Cache()\<close> and \<open>home.CacheIndex(name)\<close>.
\<close>

record Home =
  RepositoryFile :: path
  CacheDir :: path
  CacheIndex :: "string \<Rightarrow> path"

text \<open>
  What a file holds: a serialised registry, a cached index, or the leading part of some
  content (what an interrupted write leaves behind).
\<close>

datatype content =
    RepoFile "Entry list"
  | IndexFile string
  | Partial content

text \<open>
  The errors \<open>addRepository\<close> returns. Two are built in the function itself:
  \<^item> \<open>RepoNameExists name\<close> is
    \<^verbatim>\<open>fmt.Errorf("repository name (%s) already exists, please specify a different name", name)\<close>;
  \<^item> \<open>NotValidChartRepository url err\<close> is
    \<^verbatim>\<open>fmt.Errorf("Looks like %q is not a valid chart repository or cannot be reached: %s", url, err.Error())\<close>.
  \<open>DeadlineExceeded\<close> is the error of the expired lock context, and \<open>Failure\<close> stands
  for any error of a collaborator, passed on as it is.
\<close>

datatype error =
    RepoNameExists string
  | NotValidChartRepository string error
  | DeadlineExceeded
  | Failure string

text \<open>The operations an invocation performs, in the order it performs them.\<close>

datatype event =
    EvLoad path
  | EvFetch string
  | EvTryLock path nat nat
  | EvLocked path
  | EvUnlock path
  | EvWrite path nat

record world =
  files :: "path \<rightharpoonup> content"
  trace :: "event list"

text \<open>One raw attempt to take the file lock.\<close>

datatype lock_try = Acquired | Busy | Broken error

text \<open>
  The environment of one invocation:
  \<^item> \<open>getter_error\<close>: whether a chart repository client can be built for the entry;
  \<^item> \<open>remote_index\<close>: what fetching the index of the entry gives, an error or the index;
  \<^item> \<open>concurrent\<close>: what other invocations have done to the registry file between the
    first load and the moment the lock call returns;
  \<^item> \<open>try_lock\<close>: the result of a raw lock attempt made \<open>t\<close> nanoseconds after the lock
    call started;
  \<^item> \<open>write_error\<close>: whether writing a path fails.
\<close>

record env =
  getter_error :: "Entry \<Rightarrow> error option"
  remote_index :: "Entry \<Rightarrow> error + string"
  concurrent :: "content option \<Rightarrow> content option"
  try_lock :: "nat \<Rightarrow> lock_try"
  write_error :: "path \<Rightarrow> error option"

subsection \<open>The registry store\<close>

text \<open>
  \<open>repo.LoadRepositoriesFile\<close>, \<open>Has\<close>, \<open>Update\<close> and \<open>WriteFile\<close> of \<open>pkg/repo\<close> are called
  by \<open>addRepository\<close> but are not part of the source unit. Each is written here from what
  the specification says about it.
\<close>

text \<open>
  Modelled from the spec: the parsing done by \<open>repo.LoadRepositoriesFile\<close>, which is
  missing from the source unit. \<open>Load\<close> "parses the registry file; if the file does not
  exist, returns an empty Registry rather than an error"; a file that does not hold a
  registry is a load error.
\<close>

definition parse :: "content option \<Rightarrow> error + Entry list" where
  "parse c =
     (case c of
        None \<Rightarrow> Inr []
      | Some (RepoFile rs) \<Rightarrow> Inr rs
      | Some _ \<Rightarrow> Inl (Failure ''cannot load repositories file''))"

text \<open>
  Modelled from the spec: \<open>repo.LoadRepositoriesFile\<close>, missing from the source unit. It
  reads the file at the path and parses it; the disk is left as it is.
\<close>

definition LoadRepositoriesFile :: "path \<Rightarrow> world \<Rightarrow> (error + Entry list) \<times> world" where
  "LoadRepositoriesFile p w = (parse (files w p), w\<lparr>trace := trace w @ [EvLoad p]\<rparr>)"

text \<open>
  Modelled from the spec: \<open>RepoFile.Has\<close>, missing from the source unit, is the
  "existence check by key".
\<close>

definition Has :: "Entry list \<Rightarrow> string \<Rightarrow> bool" where
  "Has f name = (name \<in> set (map Name f))"

text \<open>
  Modelled from the spec: \<open>RepoFile.Update\<close>, missing from the source unit, is
  "insert-or-replace by \<open>name\<close>", with the "order of untouched entries" stable: the entry
  takes the place of the one with its name, or goes to the end.
\<close>

fun Update :: "Entry list \<Rightarrow> Entry \<Rightarrow> Entry list" where
  "Update [] e = [e]"
| "Update (r # rs) e = (if Name r = Name e then e # rs else r # Update rs e)"

text \<open>
  Modelled from the spec: the temporary file of \<open>RepoFile.WriteFile\<close>, which is missing
  from the source unit. The specification requires "write-to-temp-then-rename" and names
  no file; the temporary file is taken to lie beside the target.
\<close>

definition temp_path :: "path \<Rightarrow> path" where
  "temp_path p = p @ ''.tmp''"

text \<open>
  Modelled from the spec: the steps of \<open>RepoFile.WriteFile\<close>, missing from the source unit,
  which "serializes and overwrites the file at \<open>path\<close>" by "write-to-temp-then-rename".
  The write is a sequence of three small steps: the temporary file exists with part of
  the data, the temporary file holds all of it, the temporary file is renamed to \<open>path\<close>.
\<close>

definition write_steps ::
  "path \<Rightarrow> content \<Rightarrow> ((path \<rightharpoonup> content) \<Rightarrow> (path \<rightharpoonup> content)) list" where
  "write_steps p d =
     [\<lambda>fs. fs(temp_path p \<mapsto> Partial d),
      \<lambda>fs. fs(temp_path p \<mapsto> d),
      \<lambda>fs. (fs(p := fs (temp_path p)))(temp_path p := None)]"

text \<open>
  Modelled from the spec: a write of \<open>RepoFile.WriteFile\<close> (missing from the source unit)
  that is "interrupted mid-write": the disk after the first \<open>k\<close> steps, that is, after
  a crash at that point.
\<close>

definition interrupted_write ::
  "nat \<Rightarrow> path \<Rightarrow> content \<Rightarrow> (path \<rightharpoonup> content) \<Rightarrow> (path \<rightharpoonup> content)" where
  "interrupted_write k p d fs = fold (\<lambda>step s. step s) (take k (write_steps p d)) fs"

text \<open>
  Modelled from the spec: \<open>RepoFile.WriteFile\<close>, missing from the source unit. A write that
  fails reports its error and leaves the disk as it was; one that succeeds has run all
  its steps. \<open>perm\<close> is the permission mode, \<open>0644\<close> in \<open>addRepository\<close>.
\<close>

definition WriteFile ::
  "env \<Rightarrow> Entry list \<Rightarrow> path \<Rightarrow> nat \<Rightarrow> world \<Rightarrow> error option \<times> world" where
  "WriteFile en f p perm w =
     (case write_error en p of
        Some err \<Rightarrow> (Some err, w\<lparr>trace := trace w @ [EvWrite p perm]\<rparr>)
      | None \<Rightarrow>
          (None, w\<lparr>files := interrupted_write (length (write_steps p (RepoFile f))) p (RepoFile f) (files w),
                   trace := trace w @ [EvWrite p perm]\<rparr>))"

subsection \<open>The index fetcher\<close>

text \<open>
  Modelled from the spec: \<open>repo.NewChartRepository\<close>, missing from the source unit, picks
  the transport for the entry ("pluggable transport by URL scheme") and may fail; whether
  it does is read from the environment.
\<close>

definition NewChartRepository :: "env \<Rightarrow> Entry \<Rightarrow> error option" where
  "NewChartRepository en c = getter_error en c"

text \<open>
  Modelled from the spec: \<open>ChartRepository.DownloadIndexFile\<close>, missing from the source
  unit, "fetches and validates a remote index, caching it locally; any failure (network,
  auth, malformed content) returns a single opaque error". The index goes to the entry's
  cache file, the "local path where the fetched index is cached"; a failed fetch leaves
  the disk as it was.
\<close>

definition DownloadIndexFile :: "env \<Rightarrow> Entry \<Rightarrow> path \<Rightarrow> world \<Rightarrow> error option \<times> world" where
  "DownloadIndexFile en c cachePath w =
     (case remote_index en c of
        Inl err \<Rightarrow> (Some err, w\<lparr>trace := trace w @ [EvFetch (URL c)]\<rparr>)
      | Inr idx \<Rightarrow>
          (None, w\<lparr>files := (files w)(Cache c \<mapsto> IndexFile idx),
                   trace := trace w @ [EvFetch (URL c)]\<rparr>))"

subsection \<open>The file lock\<close>

text \<open>\<open>time.Second\<close>, in nanoseconds as \<open>time.Duration\<close> counts.\<close>

definition Second :: nat where
  "Second = 1000000000"

text \<open>
  Modelled from the spec: the file lock (\<open>flock.TryLockContext\<close>) is a collaborator
  outside the source unit, "\<open>TryLockContext(ctx, pollInterval) -> (acquired bool, error)\<close>",
  polling "while waiting" until the context's deadline. \<open>now\<close> is the time since the
  call, in nanoseconds. An attempt is made unless the deadline has passed; an attempt
  that acquires the lock ends the call, and so does one that fails for another reason
  than contention; a busy lock is tried again one interval later (a round of the loop
  takes at least one tick of the clock); the expired context gives its error. When a
  retry falls on the deadline itself, the deadline wins.
\<close>

function TryLockContext :: "(nat \<Rightarrow> lock_try) \<Rightarrow> nat \<Rightarrow> nat \<Rightarrow> nat \<Rightarrow> bool \<times> error option" where
  "TryLockContext attempt deadline retryDelay now =
     (if deadline \<le> now then (False, Some DeadlineExceeded)
      else case attempt now of
             Acquired \<Rightarrow> (True, None)
           | Broken err \<Rightarrow> (False, Some err)
           | Busy \<Rightarrow> TryLockContext attempt deadline retryDelay (now + max 1 retryDelay))"
  by pat_completeness auto
termination
  by (relation "measure (\<lambda>(attempt, deadline, retryDelay, now). deadline - now)") auto

declare TryLockContext.simps [simp del]

text \<open>
  Lines 139 to 142: \<open>flock.New\<close> on the path, the context with its timeout, and the lock
  call, as the invocation sees them. The wait starts at time \<open>0\<close>; by the time the call
  returns, the registry file holds what the other invocations have committed since the
  first load.
\<close>

definition lock_registry ::
  "env \<Rightarrow> path \<Rightarrow> nat \<Rightarrow> nat \<Rightarrow> world \<Rightarrow> (bool \<times> error option) \<times> world" where
  "lock_registry en p timeout retryDelay w =
     (let r = TryLockContext (try_lock en) timeout retryDelay 0
      in (r, w\<lparr>files := (files w)(p := concurrent en (files w p)),
               trace := trace w @ [EvTryLock p timeout retryDelay] @
                        (if fst r then [EvLocked p] else [])\<rparr>))"

text \<open>
  Modelled from the spec: \<open>Flock.Unlock\<close>, outside the source unit, releases the lock
  ("release the lock on all exit paths").
\<close>

definition Unlock :: "path \<Rightarrow> world \<Rightarrow> world" where
  "Unlock p w = w\<lparr>trace := trace w @ [EvUnlock p]\<rparr>"

subsection \<open>\<open>addRepository\<close>\<close>

text \<open>
  Lines 150 to 159: the second load, the merge and the write, which run once the lock
  call has returned without an error.
\<close>

definition reload_merge_write :: "env \<Rightarrow> Home \<Rightarrow> Entry \<Rightarrow> world \<Rightarrow> error option \<times> world" where
  "reload_merge_write en home c w =
     (case LoadRepositoriesFile (RepositoryFile home) w of
        (Inl err, w') \<Rightarrow> (Some err, w')
      | (Inr f, w') \<Rightarrow> WriteFile en (Update f c) (RepositoryFile home) 420 w')"

text \<open>
  Lines 139 to 159. \<open>defer fileLock.Unlock()\<close> is registered only when the lock call
  gave \<open>locked\<close> and no error, and runs when the function returns, on every path. An
  error of the lock call is returned as it is. (\<open>defer cancel()\<close> releases the context
  and has no effect on the disk.)
\<close>

definition lock_and_commit :: "env \<Rightarrow> Home \<Rightarrow> Entry \<Rightarrow> world \<Rightarrow> error option \<times> world" where
  "lock_and_commit en home c w =
     (case lock_registry en (RepositoryFile home) (30 * Second) Second w of
        ((locked, err), w') \<Rightarrow>
          (let deferred = (if err = None \<and> locked then Unlock (RepositoryFile home) else (\<lambda>x. x));
               (res, w'') = (case err of
                               Some e \<Rightarrow> (Some e, w')
                             | None \<Rightarrow> reload_merge_write en home c w')
           in (res, deferred w'')))"

text \<open>
  Lines 107 to 136, and then the rest through \<open>lock_and_commit\<close>. The result is the
  returned \<open>error\<close> (\<open>None\<close> for \<open>nil\<close>) and the world the invocation leaves.
\<close>

definition addRepository ::
  "env \<Rightarrow> string \<Rightarrow> string \<Rightarrow> string \<Rightarrow> string \<Rightarrow> Home \<Rightarrow> string \<Rightarrow> string \<Rightarrow> string \<Rightarrow> bool
     \<Rightarrow> world \<Rightarrow> error option \<times> world" where
  "addRepository en name url username password home certFile keyFile caFile noUpdate w =
     (case LoadRepositoriesFile (RepositoryFile home) w of
        (Inl err, w1) \<Rightarrow> (Some err, w1)
      | (Inr f, w1) \<Rightarrow>
          if noUpdate \<and> Has f name then (Some (RepoNameExists name), w1)
          else
            (let cif = CacheIndex home name;
                 c = \<lparr>Name = name, Cache = cif, URL = url, Username = username,
                      Password = password, CertFile = certFile, KeyFile = keyFile,
                      CAFile = caFile\<rparr>
             in (case NewChartRepository en c of
                   Some err \<Rightarrow> (Some err, w1)
                 | None \<Rightarrow>
                     (case DownloadIndexFile en c (CacheDir home) w1 of
                        (Some err, w2) \<Rightarrow> (Some (NotValidChartRepository url err), w2)
                      | (None, w2) \<Rightarrow> lock_and_commit en home c w2))))"

subsection \<open>Reading the list of operations\<close>

text \<open>What an invocation that started in \<open>w\<close> and ended in \<open>w'\<close> has performed.\<close>

definition performed :: "world \<Rightarrow> world \<Rightarrow> event list" where
  "performed w w' = drop (length (trace w)) (trace w')"

fun is_write :: "event \<Rightarrow> bool" where
  "is_write (EvWrite p perm) = True"
| "is_write e = False"

fun is_fetch :: "event \<Rightarrow> bool" where
  "is_fetch (EvFetch u) = True"
| "is_fetch e = False"

fun is_try_lock :: "event \<Rightarrow> bool" where
  "is_try_lock (EvTryLock p timeout retryDelay) = True"
| "is_try_lock e = False"

text \<open>
  \<open>under_lock h es\<close> are the operations of \<open>es\<close> performed while the lock is held,
  \<open>outside_lock h es\<close> those performed while it is not, and \<open>lock_held h es\<close> tells
  whether it is held at the end; \<open>h\<close> tells whether it is held at the start.
\<close>

fun under_lock :: "bool \<Rightarrow> event list \<Rightarrow> event list" where
  "under_lock h [] = []"
| "under_lock h (EvLocked p # es) = under_lock True es"
| "under_lock h (EvUnlock p # es) = under_lock False es"
| "under_lock h (e # es) = (if h then e # under_lock h es else under_lock h es)"

fun outside_lock :: "bool \<Rightarrow> event list \<Rightarrow> event list" where
  "outside_lock h [] = []"
| "outside_lock h (EvLocked p # es) = outside_lock True es"
| "outside_lock h (EvUnlock p # es) = outside_lock False es"
| "outside_lock h (e # es) = (if h then outside_lock h es else e # outside_lock h es)"

fun lock_held :: "bool \<Rightarrow> event list \<Rightarrow> bool" where
  "lock_held h [] = h"
| "lock_held h (EvLocked p # es) = lock_held True es"
| "lock_held h (EvUnlock p # es) = lock_held False es"
| "lock_held h (e # es) = lock_held h es"

subsection \<open>Sample inputs\<close>

definition sample_home :: Home where
  "sample_home =
     \<lparr>RepositoryFile = ''repositories.yaml'', CacheDir = ''cache'',
      CacheIndex = (\<lambda>name. ''cache/'' @ name @ ''-index.yaml'')\<rparr>"

definition sample_entry :: "string \<Rightarrow> string \<Rightarrow> Entry" where
  "sample_entry name url =
     \<lparr>Name = name, Cache = CacheIndex sample_home name, URL = url, Username = [],
      Password = [], CertFile = [], KeyFile = [], CAFile = []\<rparr>"

text \<open>An environment in which everything works and nobody else is active.\<close>

definition quiet_env :: env where
  "quiet_env =
     \<lparr>getter_error = (\<lambda>c. None), remote_index = (\<lambda>c. Inr ''index''),
      concurrent = (\<lambda>x. x), try_lock = (\<lambda>t. Acquired), write_error = (\<lambda>p. None)\<rparr>"

text \<open>
  Another invocation registers \<open>other\<close> on a registry that was empty, between the first
  load and the lock.
\<close>

definition racing_env :: env where
  "racing_env =
     quiet_env\<lparr>concurrent := (\<lambda>x. Some (RepoFile [sample_entry ''other'' ''http://o'']))\<rparr>"

text \<open>The lock is held by somebody else for as long as the invocation waits.\<close>

definition busy_env :: env where
  "busy_env = quiet_env\<lparr>try_lock := (\<lambda>t. Busy)\<rparr>"

text \<open>
  The lock is held by somebody else during the first three seconds of the wait and is
  free from then on.
\<close>

definition contended_env :: env where
  "contended_env = quiet_env\<lparr>try_lock := (\<lambda>t. if t < 3 * Second then Busy else Acquired)\<rparr>"

text \<open>The remote side does not answer with an index.\<close>

definition unreachable_env :: env where
  "unreachable_env = quiet_env\<lparr>remote_index := (\<lambda>c. Inl (Failure ''no index''))\<rparr>"

definition empty_world :: world where
  "empty_world = \<lparr>files = Map.empty, trace = []\<rparr>"

definition stable_world :: world where
  "stable_world =
     \<lparr>files = [''repositories.yaml'' \<mapsto> RepoFile [sample_entry ''stable'' ''http://old'']],
      trace = []\<rparr>"


section \<open>Properties\<close>

subsection \<open>The collaborators\<close>

lemmas run_defs = addRepository_def lock_and_commit_def reload_merge_write_def
  lock_registry_def Unlock_def LoadRepositoriesFile_def WriteFile_def
  NewChartRepository_def DownloadIndexFile_def Let_def

lemma temp_path_neq: "temp_path p \<noteq> p"
  by (simp add: temp_path_def)

lemma interrupted_write_all:
  "interrupted_write (length (write_steps p d)) p d fs = (fs(temp_path p := None))(p \<mapsto> d)"
  using temp_path_neq [of p] by (auto simp: interrupted_write_def write_steps_def)


text \<open>
  The lock call reports "not acquired" only together with an error, and an error only
  together with "not acquired": \<open>addRepository\<close> tests the error alone.
\<close>

lemma TryLockContext_locked_iff: "TryLockContext a d r n = (l, e) \<Longrightarrow> l = (e = None)"
  apply (induction a d r n rule: TryLockContext.induct)
  apply (subst (asm) TryLockContext.simps)
  apply (auto split: if_splits lock_try.splits)
  done

lemma TryLockContext_results:
  obtains (Locked) "TryLockContext a d r n = (True, None)"
  | (Failed) e where "TryLockContext a d r n = (False, Some e)"
proof (cases "TryLockContext a d r n")
  case (Pair l e)
  with TryLockContext_locked_iff [OF Pair] show thesis
    by (cases e) (auto intro: Locked Failed)
qed

lemma TryLockContext_first:
  "now < d \<Longrightarrow> a now = Acquired \<Longrightarrow> TryLockContext a d r now = (True, None)"
  by (subst TryLockContext.simps) simp


text \<open>
  A lock that is busy at every instant at which it is polled makes the call end with the
  error of the context. With the arguments of \<open>addRepository\<close> the polls are at
  \<open>0, 1, \<dots>, 29\<close> seconds.
\<close>

lemma TryLockContext_busy:
  "(\<And>k. now + k * max 1 r < d \<Longrightarrow> a (now + k * max 1 r) = Busy) \<Longrightarrow>
     TryLockContext a d r now = (False, Some DeadlineExceeded)"
proof (induction a d r now rule: TryLockContext.induct)
  case (1 a d r now)
  show ?case
  proof (cases "d \<le> now")
    case True
    then show ?thesis by (simp add: TryLockContext.simps)
  next
    case False
    have b: "a now = Busy" using 1(2)[of 0] False by simp
    have "TryLockContext a d r (now + max 1 r) = (False, Some DeadlineExceeded)"
    proof (rule 1(1)[OF False b])
      fix k assume "now + max 1 r + k * max 1 r < d"
      then show "a (now + max 1 r + k * max 1 r) = Busy"
        using 1(2)[of "Suc k"] by (simp add: algebra_simps)
    qed
    then show ?thesis using False b by (subst TryLockContext.simps) simp
  qed
qed

lemma TryLockContext_timeout_30s:
  assumes "\<forall>k<30. a (k * Second) = Busy"
  shows "TryLockContext a (30 * Second) Second 0 = (False, Some DeadlineExceeded)"
proof (rule TryLockContext_busy)
  fix k assume "0 + k * max 1 Second < 30 * Second"
  then have "k < 30" by (simp add: Second_def)
  then show "a (0 + k * max 1 Second) = Busy" using assms by (simp add: Second_def)
qed


text \<open>A lock that is free at one of the polls, and busy at the polls before, is acquired.\<close>

lemma TryLockContext_acquires:
  assumes "0 < r" "\<forall>j<k. a (now + j * r) = Busy" "a (now + k * r) = Acquired" "now + k * r < d"
  shows "TryLockContext a d r now = (True, None)"
  using assms
proof (induction k arbitrary: now)
  case 0
  then show ?case by (simp add: TryLockContext_first)
next
  case (Suc k)
  from Suc.prems(2) have busy: "a now = Busy" by (metis add.right_neutral mult_zero_left zero_less_Suc)
  have later: "\<forall>j<k. a (now + r + j * r) = Busy"
  proof (intro allI impI)
    fix j assume "j < k"
    then have "Suc j < Suc k" by simp
    with Suc.prems(2) have "a (now + Suc j * r) = Busy" by blast
    then show "a (now + r + j * r) = Busy" by (simp add: algebra_simps)
  qed
  have "TryLockContext a d r (now + r) = (True, None)"
    using Suc.IH [OF Suc.prems(1) later] Suc.prems(3,4) by (simp add: algebra_simps)
  moreover have "\<not> d \<le> now" "max 1 r = r" using Suc.prems(1,4) by simp_all
  ultimately show ?case using busy by (subst TryLockContext.simps) simp
qed

text \<open>\<open>Update\<close> twice is \<open>Update\<close> once, and it leaves one entry of the name.\<close>

lemma Update_idem: "Update (Update f c) c = Update f c"
  by (induction f) auto

lemma Update_filter:
  "distinct (map Name f) \<Longrightarrow> filter (\<lambda>e. Name e = Name c) (Update f c) = [c]"
proof (induction f)
  case Nil
  then show ?case by simp
next
  case (Cons a f)
  have "n \<notin> set (map Name g) \<Longrightarrow> filter (\<lambda>e. Name e = n) g = []" for n g
    by (induction g) auto
  from this [of "Name c" f] have "Name a = Name c \<Longrightarrow> filter (\<lambda>e. Name e = Name c) f = []"
    using Cons.prems by simp
  then show ?case using Cons by auto
qed


subsection \<open>The paths through \<open>addRepository\<close>\<close>

lemma world_literal: "(w :: world)\<lparr>files := a, trace := b\<rparr> = \<lparr>files = a, trace = b\<rparr>"
  by (cases w) simp

lemma lock_and_commit_failed:
  assumes "TryLockContext (try_lock en) (30 * Second) Second 0 = (False, Some e)"
  shows "lock_and_commit en home c w =
           (Some e,
            \<lparr>files = (files w)(RepositoryFile home := concurrent en (files w (RepositoryFile home))),
             trace = trace w @ [EvTryLock (RepositoryFile home) (30 * Second) Second]\<rparr>)"
  using assms by (simp add: lock_and_commit_def lock_registry_def Let_def world_literal)

lemma lock_and_commit_locked:
  assumes "TryLockContext (try_lock en) (30 * Second) Second 0 = (True, None)"
  shows "lock_and_commit en home c w =
           (case parse (concurrent en (files w (RepositoryFile home))) of
              Inl e \<Rightarrow>
                (Some e,
                 \<lparr>files = (files w)(RepositoryFile home := concurrent en (files w (RepositoryFile home))),
                  trace = trace w @ [EvTryLock (RepositoryFile home) (30 * Second) Second,
                                     EvLocked (RepositoryFile home), EvLoad (RepositoryFile home),
                                     EvUnlock (RepositoryFile home)]\<rparr>)
            | Inr f1 \<Rightarrow>
                (case write_error en (RepositoryFile home) of
                   Some e \<Rightarrow>
                     (Some e,
                      \<lparr>files = (files w)(RepositoryFile home := concurrent en (files w (RepositoryFile home))),
                       trace = trace w @ [EvTryLock (RepositoryFile home) (30 * Second) Second,
                                          EvLocked (RepositoryFile home), EvLoad (RepositoryFile home),
                                          EvWrite (RepositoryFile home) 420,
                                          EvUnlock (RepositoryFile home)]\<rparr>)
                 | None \<Rightarrow>
                     (None,
                      \<lparr>files = ((files w)(temp_path (RepositoryFile home) := None))
                                 (RepositoryFile home \<mapsto> RepoFile (Update f1 c)),
                       trace = trace w @ [EvTryLock (RepositoryFile home) (30 * Second) Second,
                                          EvLocked (RepositoryFile home), EvLoad (RepositoryFile home),
                                          EvWrite (RepositoryFile home) 420,
                                          EvUnlock (RepositoryFile home)]\<rparr>)))"
  using assms
  by (simp add: lock_and_commit_def lock_registry_def reload_merge_write_def Unlock_def
      LoadRepositoriesFile_def WriteFile_def interrupted_write_all Let_def world_literal
      split: sum.splits option.splits)

lemma addRepository_validated:
  assumes "parse (files w (RepositoryFile home)) = Inr f0" "\<not> (noUpdate \<and> Has f0 name)"
    and "c = \<lparr>Name = name, Cache = CacheIndex home name, URL = url, Username = username,
              Password = password, CertFile = certFile, KeyFile = keyFile, CAFile = caFile\<rparr>"
    and "getter_error en c = None" "remote_index en c = Inr idx"
  shows "addRepository en name url username password home certFile keyFile caFile noUpdate w =
           lock_and_commit en home c
             \<lparr>files = (files w)(CacheIndex home name \<mapsto> IndexFile idx),
              trace = trace w @ [EvLoad (RepositoryFile home), EvFetch url]\<rparr>"
  using assms
  by (auto simp: addRepository_def LoadRepositoriesFile_def NewChartRepository_def
      DownloadIndexFile_def Let_def world_literal)


text \<open>
  An invocation ends in one of eight ways: the first load fails, the name is a duplicate,
  no client can be built, the index cannot be fetched, the lock call fails, the second
  load fails, the write fails, or the entry is committed. Each comes with its result and
  with the world it leaves; \<open>fs\<close> is the disk once the index is cached.
\<close>

lemma addRepository_paths:
  assumes run: "addRepository en name url username password home certFile keyFile caFile noUpdate w = (r, w')"
    and c: "c = \<lparr>Name = name, Cache = CacheIndex home name, URL = url, Username = username,
                   Password = password, CertFile = certFile, KeyFile = keyFile, CAFile = caFile\<rparr>"
  obtains
    (LoadError) e where
      "parse (files w (RepositoryFile home)) = Inl e"
      "r = Some e"
      "w' = w\<lparr>trace := trace w @ [EvLoad (RepositoryFile home)]\<rparr>"
  | (Duplicate) f0 where
      "parse (files w (RepositoryFile home)) = Inr f0" "noUpdate" "Has f0 name"
      "r = Some (RepoNameExists name)"
      "w' = w\<lparr>trace := trace w @ [EvLoad (RepositoryFile home)]\<rparr>"
  | (NoGetter) f0 e where
      "parse (files w (RepositoryFile home)) = Inr f0" "\<not> (noUpdate \<and> Has f0 name)"
      "getter_error en c = Some e"
      "r = Some e"
      "w' = w\<lparr>trace := trace w @ [EvLoad (RepositoryFile home)]\<rparr>"
  | (Unreachable) f0 e where
      "parse (files w (RepositoryFile home)) = Inr f0" "\<not> (noUpdate \<and> Has f0 name)"
      "getter_error en c = None" "remote_index en c = Inl e"
      "r = Some (NotValidChartRepository url e)"
      "w' = w\<lparr>trace := trace w @ [EvLoad (RepositoryFile home), EvFetch url]\<rparr>"
  | (LockError) f0 idx e fs where
      "parse (files w (RepositoryFile home)) = Inr f0" "\<not> (noUpdate \<and> Has f0 name)"
      "getter_error en c = None" "remote_index en c = Inr idx"
      "TryLockContext (try_lock en) (30 * Second) Second 0 = (False, Some e)"
      "fs = (files w)(CacheIndex home name \<mapsto> IndexFile idx)"
      "r = Some e"
      "w' = \<lparr>files = fs(RepositoryFile home := concurrent en (fs (RepositoryFile home))),
              trace = trace w @ [EvLoad (RepositoryFile home), EvFetch url,
                                 EvTryLock (RepositoryFile home) (30 * Second) Second]\<rparr>"
  | (ReloadError) f0 idx e fs where
      "parse (files w (RepositoryFile home)) = Inr f0" "\<not> (noUpdate \<and> Has f0 name)"
      "getter_error en c = None" "remote_index en c = Inr idx"
      "TryLockContext (try_lock en) (30 * Second) Second 0 = (True, None)"
      "fs = (files w)(CacheIndex home name \<mapsto> IndexFile idx)"
      "parse (concurrent en (fs (RepositoryFile home))) = Inl e"
      "r = Some e"
      "w' = \<lparr>files = fs(RepositoryFile home := concurrent en (fs (RepositoryFile home))),
              trace = trace w @ [EvLoad (RepositoryFile home), EvFetch url,
                                 EvTryLock (RepositoryFile home) (30 * Second) Second,
                                 EvLocked (RepositoryFile home), EvLoad (RepositoryFile home),
                                 EvUnlock (RepositoryFile home)]\<rparr>"
  | (WriteError) f0 idx f1 e fs where
      "parse (files w (RepositoryFile home)) = Inr f0" "\<not> (noUpdate \<and> Has f0 name)"
      "getter_error en c = None" "remote_index en c = Inr idx"
      "TryLockContext (try_lock en) (30 * Second) Second 0 = (True, None)"
      "fs = (files w)(CacheIndex home name \<mapsto> IndexFile idx)"
      "parse (concurrent en (fs (RepositoryFile home))) = Inr f1"
      "write_error en (RepositoryFile home) = Some e"
      "r = Some e"
      "w' = \<lparr>files = fs(RepositoryFile home := concurrent en (fs (RepositoryFile home))),
              trace = trace w @ [EvLoad (RepositoryFile home), EvFetch url,
                                 EvTryLock (RepositoryFile home) (30 * Second) Second,
                                 EvLocked (RepositoryFile home), EvLoad (RepositoryFile home),
                                 EvWrite (RepositoryFile home) 420,
                                 EvUnlock (RepositoryFile home)]\<rparr>"
  | (Committed) f0 idx f1 fs where
      "parse (files w (RepositoryFile home)) = Inr f0" "\<not> (noUpdate \<and> Has f0 name)"
      "getter_error en c = None" "remote_index en c = Inr idx"
      "TryLockContext (try_lock en) (30 * Second) Second 0 = (True, None)"
      "fs = (files w)(CacheIndex home name \<mapsto> IndexFile idx)"
      "parse (concurrent en (fs (RepositoryFile home))) = Inr f1"
      "write_error en (RepositoryFile home) = None"
      "r = None"
      "w' = \<lparr>files = (fs(temp_path (RepositoryFile home) := None))
                         (RepositoryFile home \<mapsto> RepoFile (Update f1 c)),
              trace = trace w @ [EvLoad (RepositoryFile home), EvFetch url,
                                 EvTryLock (RepositoryFile home) (30 * Second) Second,
                                 EvLocked (RepositoryFile home), EvLoad (RepositoryFile home),
                                 EvWrite (RepositoryFile home) 420,
                                 EvUnlock (RepositoryFile home)]\<rparr>"
proof (cases "parse (files w (RepositoryFile home))")
  case (Inl e)
  with run have "r = Some e" "w' = w\<lparr>trace := trace w @ [EvLoad (RepositoryFile home)]\<rparr>"
    by (auto simp: run_defs)
  with Inl show thesis by (rule LoadError)
next
  case f0: (Inr f0)
  show thesis
  proof (cases "noUpdate \<and> Has f0 name")
    case True
    with run f0 have "r = Some (RepoNameExists name)"
      "w' = w\<lparr>trace := trace w @ [EvLoad (RepositoryFile home)]\<rparr>"
      by (auto simp: run_defs)
    with f0 True show thesis by (auto intro: Duplicate)
  next
    case fresh: False
    show thesis
    proof (cases "getter_error en c")
      case (Some e)
      with run f0 fresh have "r = Some e"
        "w' = w\<lparr>trace := trace w @ [EvLoad (RepositoryFile home)]\<rparr>"
        by (auto simp: run_defs Some [unfolded c])
      with f0 fresh Some show thesis by (rule NoGetter)
    next
      case getter: None
      show thesis
      proof (cases "remote_index en c")
        case (Inl e)
        with run f0 fresh have "r = Some (NotValidChartRepository url e)"
          "w' = w\<lparr>trace := trace w @ [EvLoad (RepositoryFile home), EvFetch url]\<rparr>"
          by (auto simp: run_defs getter [unfolded c] Inl [unfolded c])
        with f0 fresh getter Inl show thesis by (rule Unreachable)
      next
        case idx: (Inr idx)
        define fs where "fs = (files w)(CacheIndex home name \<mapsto> IndexFile idx)"
        have run': "lock_and_commit en home c
                      \<lparr>files = fs, trace = trace w @ [EvLoad (RepositoryFile home), EvFetch url]\<rparr>
                    = (r, w')"
          using run addRepository_validated [OF f0 fresh c getter idx] by (simp add: fs_def)
        show thesis
        proof (cases "try_lock en" "30 * Second" Second "0 :: nat" rule: TryLockContext_results)
          case (Failed e)
          from run' have "r = Some e"
            "w' = \<lparr>files = fs(RepositoryFile home := concurrent en (fs (RepositoryFile home))),
                    trace = trace w @ [EvLoad (RepositoryFile home), EvFetch url,
                                       EvTryLock (RepositoryFile home) (30 * Second) Second]\<rparr>"
            by (auto simp: lock_and_commit_failed [OF Failed])
          with f0 fresh getter idx Failed fs_def show thesis by (rule LockError)
        next
          case Locked
          note run'' = run' [unfolded lock_and_commit_locked [OF Locked]]
          show thesis
          proof (cases "parse (concurrent en (fs (RepositoryFile home)))")
            case (Inl e)
            with run'' have "r = Some e"
              "w' = \<lparr>files = fs(RepositoryFile home := concurrent en (fs (RepositoryFile home))),
                trace = trace w @ [EvLoad (RepositoryFile home), EvFetch url,
                                   EvTryLock (RepositoryFile home) (30 * Second) Second,
                                   EvLocked (RepositoryFile home), EvLoad (RepositoryFile home),
                                   EvUnlock (RepositoryFile home)]\<rparr>"
              by auto
            with f0 fresh getter idx Locked fs_def Inl show thesis by (rule ReloadError)
          next
            case f1: (Inr f1)
            show thesis
            proof (cases "write_error en (RepositoryFile home)")
              case (Some e)
              with run'' f1 have "r = Some e"
                "w' = \<lparr>files = fs(RepositoryFile home := concurrent en (fs (RepositoryFile home))),
                  trace = trace w @ [EvLoad (RepositoryFile home), EvFetch url,
                                     EvTryLock (RepositoryFile home) (30 * Second) Second,
                                     EvLocked (RepositoryFile home), EvLoad (RepositoryFile home),
                                     EvWrite (RepositoryFile home) 420,
                                     EvUnlock (RepositoryFile home)]\<rparr>"
                by auto
              with f0 fresh getter idx Locked fs_def f1 Some show thesis by (rule WriteError)
            next
              case None
              with run'' f1 have "r = None"
                "w' = \<lparr>files = (fs(temp_path (RepositoryFile home) := None))
                         (RepositoryFile home \<mapsto> RepoFile (Update f1 c)),
                  trace = trace w @ [EvLoad (RepositoryFile home), EvFetch url,
                                     EvTryLock (RepositoryFile home) (30 * Second) Second,
                                     EvLocked (RepositoryFile home), EvLoad (RepositoryFile home),
                                     EvWrite (RepositoryFile home) 420,
                                     EvUnlock (RepositoryFile home)]\<rparr>"
                by auto
              with f0 fresh getter idx Locked fs_def f1 None show thesis by (rule Committed)
            qed
          qed
        qed
      qed
    qed
  qed
qed


subsection \<open>Facts about the sample inputs\<close>

lemmas sample_defs = sample_home_def sample_entry_def quiet_env_def racing_env_def busy_env_def
  contended_env_def unreachable_env_def empty_world_def stable_world_def

lemma sample_locked: "TryLockContext (\<lambda>t. Acquired) (30 * Second) Second 0 = (True, None)"
  by (rule TryLockContext_first) (simp_all add: Second_def)

lemma sample_busy: "TryLockContext (\<lambda>t. Busy) (30 * Second) Second 0 = (False, Some DeadlineExceeded)"
  by (rule TryLockContext_timeout_30s) simp

lemma sample_entry_eq:
  "sample_entry name url =
     \<lparr>Name = name, Cache = CacheIndex sample_home name, URL = url,
      Username = [], Password = [], CertFile = [], KeyFile = [], CAFile = []\<rparr>"
  by (simp add: sample_entry_def)

lemma sample_paths: "CacheIndex sample_home name \<noteq> RepositoryFile sample_home"
  by (simp add: sample_home_def)

lemma sample_stable:
  "parse (files stable_world (RepositoryFile sample_home)) = Inr [sample_entry ''stable'' ''http://old'']"
  by (simp add: sample_defs parse_def)

lemma sample_empty: "parse (files empty_world (RepositoryFile sample_home)) = Inr []"
  by (simp add: sample_defs parse_def)

lemma sample_quiet:
  "NewChartRepository quiet_env c = None" "remote_index quiet_env c = Inr ''index''"
  "TryLockContext (try_lock quiet_env) (30 * Second) Second 0 = (True, None)"
  "write_error quiet_env p = None" "\<forall>x. concurrent quiet_env x = x"
  by (simp_all add: quiet_env_def NewChartRepository_def sample_locked)


lemma sample_busy_env:
  "NewChartRepository busy_env c = None" "remote_index busy_env c = Inr ''index''"
  "TryLockContext (try_lock busy_env) (30 * Second) Second 0 = (False, Some DeadlineExceeded)"
  "\<forall>k<30. try_lock busy_env (k * Second) = Busy"
  by (simp_all add: busy_env_def quiet_env_def NewChartRepository_def sample_busy)

lemma sample_busy_run:
  "fst (addRepository busy_env ''new'' ''http://new'' [] [] sample_home [] [] [] False stable_world)
     = Some DeadlineExceeded"
  "performed stable_world
     (snd (addRepository busy_env ''new'' ''http://new'' [] [] sample_home [] [] [] False stable_world))
     = [EvLoad (RepositoryFile sample_home), EvFetch ''http://new'',
        EvTryLock (RepositoryFile sample_home) (30 * Second) Second]"
proof -
  let ?run = "addRepository busy_env ''new'' ''http://new'' [] [] sample_home [] [] [] False stable_world"
  have run: "?run = (fst ?run, snd ?run)" by simp
  note env = sample_busy_env(1-3) [unfolded NewChartRepository_def]
  from run sample_entry_eq show "fst ?run = Some DeadlineExceeded"
    by (cases rule: addRepository_paths) (simp_all add: env sample_stable)
  from run sample_entry_eq show "performed stable_world (snd ?run)
     = [EvLoad (RepositoryFile sample_home), EvFetch ''http://new'',
        EvTryLock (RepositoryFile sample_home) (30 * Second) Second]"
    by (cases rule: addRepository_paths) (simp_all add: env sample_stable performed_def)
qed

subsection \<open>The claims\<close>


text \<open>
  \<^bold>\<open>C1.\<close> An invocation that gets past validation and acquires the lock loads the
  registry again after the lock call has returned, merges the candidate entry with
  \<open>Update\<close> and writes the result back. What ends up in the registry file is \<open>Update\<close>
  applied to what the second load found (\<open>disk\<close>, the file as the other invocations have
  left it), not to what the first load found (\<open>f0\<close>). Should the second load or the write
  fail, the error is returned and the file keeps the content \<open>disk\<close>.
\<close>

theorem addRepository_commits_update_of_reload:
  assumes run: "addRepository en name url username password home certFile keyFile caFile noUpdate w = (r, w')"
    and c: "c = \<lparr>Name = name, Cache = CacheIndex home name, URL = url, Username = username,
                   Password = password, CertFile = certFile, KeyFile = keyFile, CAFile = caFile\<rparr>"
    and first: "parse (files w (RepositoryFile home)) = Inr f0" "\<not> (noUpdate \<and> Has f0 name)"
    and getter: "NewChartRepository en c = None"
    and fetched: "remote_index en c = Inr idx"
    and locked: "TryLockContext (try_lock en) (30 * Second) Second 0 = (True, None)"
    and paths: "CacheIndex home name \<noteq> RepositoryFile home"
    and disk: "disk = concurrent en (files w (RepositoryFile home))"
  shows "take 5 (performed w w') =
           [EvLoad (RepositoryFile home), EvFetch url,
            EvTryLock (RepositoryFile home) (30 * Second) Second,
            EvLocked (RepositoryFile home), EvLoad (RepositoryFile home)]
       \<and> (case parse disk of
            Inl err \<Rightarrow> r = Some err \<and> files w' (RepositoryFile home) = disk
          | Inr f1 \<Rightarrow>
              (case write_error en (RepositoryFile home) of
                 Some err \<Rightarrow> r = Some err \<and> files w' (RepositoryFile home) = disk
               | None \<Rightarrow> r = None \<and> files w' (RepositoryFile home) = Some (RepoFile (Update f1 c))))"
  using run c first getter fetched locked paths disk
  by (cases rule: addRepository_paths)
     (simp_all add: performed_def NewChartRepository_def)


text \<open>
  Between the first load, which finds no registry, and the lock another invocation has
  registered \<open>other\<close>: the file ends with both entries, where the first load would have
  given one.
\<close>

theorem addRepository_commits_update_of_reload_witness:
  "fst (addRepository racing_env ''stable'' ''http://new'' [] [] sample_home [] [] [] False empty_world) = None
   \<and> files (snd (addRepository racing_env ''stable'' ''http://new'' [] [] sample_home [] [] [] False
                  empty_world)) ''repositories.yaml''
       = Some (RepoFile [sample_entry ''other'' ''http://o'', sample_entry ''stable'' ''http://new''])
   \<and> Update [] (sample_entry ''stable'' ''http://new'') = [sample_entry ''stable'' ''http://new'']"
proof -
  let ?run = "addRepository racing_env ''stable'' ''http://new'' [] [] sample_home [] [] [] False empty_world"
  have run: "?run = (fst ?run, snd ?run)" by simp
  have c: "sample_entry ''stable'' ''http://new'' =
             \<lparr>Name = ''stable'', Cache = CacheIndex sample_home ''stable'', URL = ''http://new'',
              Username = [], Password = [], CertFile = [], KeyFile = [], CAFile = []\<rparr>"
    by (simp add: sample_entry_def)
  have first: "parse (files empty_world (RepositoryFile sample_home)) = Inr []"
    "\<not> (False \<and> Has [] ''stable'')"
    by (simp_all add: sample_defs parse_def)
  have getter: "NewChartRepository racing_env (sample_entry ''stable'' ''http://new'') = None"
    by (simp add: sample_defs NewChartRepository_def)
  have fetched: "remote_index racing_env (sample_entry ''stable'' ''http://new'') = Inr ''index''"
    by (simp add: sample_defs)
  have locked: "TryLockContext (try_lock racing_env) (30 * Second) Second 0 = (True, None)"
    by (simp add: sample_defs sample_locked)
  have paths: "CacheIndex sample_home ''stable'' \<noteq> RepositoryFile sample_home"
    by (simp add: sample_defs)
  have disk: "Some (RepoFile [sample_entry ''other'' ''http://o'']) =
                concurrent racing_env (files empty_world (RepositoryFile sample_home))"
    by (simp add: sample_defs)
  from addRepository_commits_update_of_reload [OF run c first getter fetched locked paths disk]
  show ?thesis
    by (simp add: parse_def sample_home_def racing_env_def quiet_env_def sample_entry_def)
qed


text \<open>
  \<^bold>\<open>C2.\<close> No write of the registry is performed outside the lock: in the list of
  operations of any invocation every write lies between the acquisition of the lock and
  its release. When the lock call does not acquire the lock, the invocation returns an
  error and performs no write at all.
\<close>

theorem addRepository_writes_only_under_lock:
  assumes run: "addRepository en name url username password home certFile keyFile caFile noUpdate w = (r, w')"
  shows "filter is_write (outside_lock False (performed w w')) = []
       \<and> (\<not> fst (TryLockContext (try_lock en) (30 * Second) Second 0) \<longrightarrow>
            r \<noteq> None \<and> filter is_write (performed w w') = [])"
  using run refl
  by (cases rule: addRepository_paths) (simp_all add: performed_def)


text \<open>The lock stays busy: an error, and no write.\<close>

theorem addRepository_writes_only_under_lock_witness:
  "fst (addRepository busy_env ''new'' ''http://new'' [] [] sample_home [] [] [] False stable_world) \<noteq> None
   \<and> filter is_write
        (performed stable_world
           (snd (addRepository busy_env ''new'' ''http://new'' [] [] sample_home [] [] [] False
                   stable_world))) = []"
proof -
  let ?run = "addRepository busy_env ''new'' ''http://new'' [] [] sample_home [] [] [] False stable_world"
  have run: "?run = (fst ?run, snd ?run)" by simp
  have "\<not> fst (TryLockContext (try_lock busy_env) (30 * Second) Second 0)"
    by (simp add: sample_busy_env(3))
  with addRepository_writes_only_under_lock [OF run] show ?thesis by simp
qed


text \<open>
  \<^bold>\<open>C3.\<close> The lock call is made with a deadline of \<open>30 * Second\<close> and a retry delay of
  \<open>Second\<close>, and it waits: the lock is polled at \<open>0, 1, \<dots>, 29\<close> seconds.
  \<^item> If the lock is busy at each of the thirty polls, the invocation returns the error of
    the expired context, performs nothing after the lock call, and the registry file
    holds exactly what the other invocations have left in it (their changes are not this
    invocation's).
  \<^item> If the lock is free at one of the thirty polls and busy at the polls before, the lock
    call acquires it, and the invocation goes on under the lock with the second load.
\<close>

theorem addRepository_lock_timeout:
  assumes run: "addRepository en name url username password home certFile keyFile caFile noUpdate w = (r, w')"
    and c: "c = \<lparr>Name = name, Cache = CacheIndex home name, URL = url, Username = username,
                   Password = password, CertFile = certFile, KeyFile = keyFile, CAFile = caFile\<rparr>"
    and first: "parse (files w (RepositoryFile home)) = Inr f0" "\<not> (noUpdate \<and> Has f0 name)"
    and getter: "NewChartRepository en c = None"
    and fetched: "remote_index en c = Inr idx"
    and paths: "CacheIndex home name \<noteq> RepositoryFile home"
  shows "((\<forall>k<30. try_lock en (k * Second) = Busy) \<longrightarrow>
            r = Some DeadlineExceeded
          \<and> performed w w' =
              [EvLoad (RepositoryFile home), EvFetch url,
               EvTryLock (RepositoryFile home) (30 * Second) Second]
          \<and> files w' (RepositoryFile home) = concurrent en (files w (RepositoryFile home)))
       \<and> (\<forall>k<30. (\<forall>j<k. try_lock en (j * Second) = Busy) \<and> try_lock en (k * Second) = Acquired \<longrightarrow>
            TryLockContext (try_lock en) (30 * Second) Second 0 = (True, None)
          \<and> take 5 (performed w w') =
              [EvLoad (RepositoryFile home), EvFetch url,
               EvTryLock (RepositoryFile home) (30 * Second) Second,
               EvLocked (RepositoryFile home), EvLoad (RepositoryFile home)]
          \<and> lock_held False (take 5 (performed w w')))"
proof (intro conjI impI allI)
  assume busy: "\<forall>k<30. try_lock en (k * Second) = Busy"
  note timeout = TryLockContext_timeout_30s [OF busy]
  from run c first getter fetched paths timeout show "r = Some DeadlineExceeded"
    by (cases rule: addRepository_paths) (simp_all add: NewChartRepository_def)
  from run c first getter fetched paths timeout
  show "performed w w' =
          [EvLoad (RepositoryFile home), EvFetch url,
           EvTryLock (RepositoryFile home) (30 * Second) Second]"
    by (cases rule: addRepository_paths) (simp_all add: performed_def NewChartRepository_def)
  from run c first getter fetched paths timeout
  show "files w' (RepositoryFile home) = concurrent en (files w (RepositoryFile home))"
    by (cases rule: addRepository_paths) (simp_all add: NewChartRepository_def)
next
  fix k :: nat
  assume k: "k < 30"
    and free: "(\<forall>j<k. try_lock en (j * Second) = Busy) \<and> try_lock en (k * Second) = Acquired"
  have pos: "0 < Second" by (simp add: Second_def)
  have before: "\<forall>j<k. try_lock en (0 + j * Second) = Busy" using free by simp
  have at: "try_lock en (0 + k * Second) = Acquired" using free by simp
  have within: "0 + k * Second < 30 * Second" using k by (simp add: Second_def)
  show acquired: "TryLockContext (try_lock en) (30 * Second) Second 0 = (True, None)"
    by (rule TryLockContext_acquires [OF pos before at within])
  from run c first getter fetched paths acquired
  show trace5: "take 5 (performed w w') =
          [EvLoad (RepositoryFile home), EvFetch url,
           EvTryLock (RepositoryFile home) (30 * Second) Second,
           EvLocked (RepositoryFile home), EvLoad (RepositoryFile home)]"
    by (cases rule: addRepository_paths) (simp_all add: performed_def NewChartRepository_def)
  show "lock_held False (take 5 (performed w w'))"
    by (simp add: trace5)
qed


text \<open>
  Nobody else writes. With the lock busy throughout, the invocation times out and the
  registry file is as it was; with the lock busy for three seconds and free at the fourth
  poll, the invocation acquires it and commits the entry.
\<close>

theorem addRepository_lock_timeout_witness:
  "fst (addRepository busy_env ''new'' ''http://new'' [] [] sample_home [] [] [] False stable_world)
     = Some DeadlineExceeded
   \<and> files (snd (addRepository busy_env ''new'' ''http://new'' [] [] sample_home [] [] [] False
                  stable_world)) ''repositories.yaml''
       = Some (RepoFile [sample_entry ''stable'' ''http://old''])
   \<and> TryLockContext (try_lock contended_env) (30 * Second) Second 0 = (True, None)
   \<and> take 5 (performed stable_world
        (snd (addRepository contended_env ''new'' ''http://new'' [] [] sample_home [] [] [] False
                stable_world)))
       = [EvLoad ''repositories.yaml'', EvFetch ''http://new'',
          EvTryLock ''repositories.yaml'' (30 * Second) Second,
          EvLocked ''repositories.yaml'', EvLoad ''repositories.yaml'']"
proof -
  let ?busy = "addRepository busy_env ''new'' ''http://new'' [] [] sample_home [] [] [] False stable_world"
  let ?contended =
    "addRepository contended_env ''new'' ''http://new'' [] [] sample_home [] [] [] False stable_world"
  have busy: "?busy = (fst ?busy, snd ?busy)" by simp
  have contended: "?contended = (fst ?contended, snd ?contended)" by simp
  have fresh: "\<not> (False \<and> Has [sample_entry ''stable'' ''http://old''] ''new'')" by simp
  have env: "NewChartRepository contended_env (sample_entry ''new'' ''http://new'') = None"
    "remote_index contended_env (sample_entry ''new'' ''http://new'') = Inr ''index''"
    by (simp_all add: contended_env_def quiet_env_def NewChartRepository_def)
  have held: "\<forall>j<3. try_lock contended_env (j * Second) = Busy"
    by (simp add: contended_env_def Second_def)
  have free: "try_lock contended_env (3 * Second) = Acquired"
    by (simp add: contended_env_def)
  from addRepository_lock_timeout
         [OF busy sample_entry_eq sample_stable fresh sample_busy_env(1,2) sample_paths]
       sample_busy_env(4)
  have timeout: "fst ?busy = Some DeadlineExceeded
    \<and> files (snd ?busy) (RepositoryFile sample_home)
        = concurrent busy_env (files stable_world (RepositoryFile sample_home))"
    by simp
  from addRepository_lock_timeout
         [OF contended sample_entry_eq sample_stable fresh env sample_paths]
  have "\<forall>k<30. (\<forall>j<k. try_lock contended_env (j * Second) = Busy)
                \<and> try_lock contended_env (k * Second) = Acquired \<longrightarrow>
          TryLockContext (try_lock contended_env) (30 * Second) Second 0 = (True, None)
        \<and> take 5 (performed stable_world (snd ?contended)) =
            [EvLoad (RepositoryFile sample_home), EvFetch ''http://new'',
             EvTryLock (RepositoryFile sample_home) (30 * Second) Second,
             EvLocked (RepositoryFile sample_home), EvLoad (RepositoryFile sample_home)]
        \<and> lock_held False (take 5 (performed stable_world (snd ?contended)))"
    by simp
  from this [rule_format, of 3] held free
  have "TryLockContext (try_lock contended_env) (30 * Second) Second 0 = (True, None)
        \<and> take 5 (performed stable_world (snd ?contended)) =
            [EvLoad (RepositoryFile sample_home), EvFetch ''http://new'',
             EvTryLock (RepositoryFile sample_home) (30 * Second) Second,
             EvLocked (RepositoryFile sample_home), EvLoad (RepositoryFile sample_home)]"
    by simp
  with timeout show ?thesis
    by (simp add: sample_home_def busy_env_def quiet_env_def stable_world_def)
qed


text \<open>
  \<^bold>\<open>C4.\<close> If the index cannot be fetched, the invocation returns an error and leaves every
  file as it was, whatever the registry held; it performs no write. When the fetch is
  reached (the first load succeeds, the name passes the duplicate check and a client can
  be built), the error is the one that says that the URL is not a valid chart repository
  or cannot be reached, wrapping the error of the fetch.
\<close>

theorem addRepository_validation_gate:
  assumes run: "addRepository en name url username password home certFile keyFile caFile noUpdate w = (r, w')"
    and c: "c = \<lparr>Name = name, Cache = CacheIndex home name, URL = url, Username = username,
                   Password = password, CertFile = certFile, KeyFile = keyFile, CAFile = caFile\<rparr>"
    and unreachable: "remote_index en c = Inl err"
  shows "r \<noteq> None \<and> files w' = files w
       \<and> filter is_write (performed w w') = []
       \<and> (\<forall>f0. parse (files w (RepositoryFile home)) = Inr f0 \<and> \<not> (noUpdate \<and> Has f0 name)
               \<and> NewChartRepository en c = None \<longrightarrow>
             r = Some (NotValidChartRepository url err)
             \<and> performed w w' = [EvLoad (RepositoryFile home), EvFetch url])"
  using run c unreachable
  by (cases rule: addRepository_paths)
     (simp_all add: performed_def NewChartRepository_def)


text \<open>The remote side gives no index: the descriptive error, and the same files.\<close>

theorem addRepository_validation_gate_witness:
  "fst (addRepository unreachable_env ''new'' ''http://new'' [] [] sample_home [] [] [] False stable_world)
     = Some (NotValidChartRepository ''http://new'' (Failure ''no index''))
   \<and> files (snd (addRepository unreachable_env ''new'' ''http://new'' [] [] sample_home [] [] [] False
                  stable_world))
       = files stable_world"
proof -
  let ?run = "addRepository unreachable_env ''new'' ''http://new'' [] [] sample_home [] [] [] False stable_world"
  have run: "?run = (fst ?run, snd ?run)" by simp
  have unreachable:
    "remote_index unreachable_env (sample_entry ''new'' ''http://new'') = Inl (Failure ''no index'')"
    by (simp add: sample_defs)
  have getter: "NewChartRepository unreachable_env (sample_entry ''new'' ''http://new'') = None"
    by (simp add: sample_defs NewChartRepository_def)
  from addRepository_validation_gate [OF run sample_entry_eq unreachable] sample_stable getter
  show ?thesis by simp
qed


text \<open>
  \<^bold>\<open>C5.\<close> The write of the registry goes through a temporary file that is renamed at the
  end. A write interrupted after any number \<open>k\<close> of its steps leaves at \<open>path\<close> either
  the content it had (before the rename) or the whole new content (after it), never a
  part of it. \<open>WriteFile\<close> as called by \<open>addRepository\<close> is the write with all its steps,
  and a write that reports an error leaves the files as they were.
\<close>

theorem WriteFile_atomic:
  "interrupted_write k p d fs p = (if k < length (write_steps p d) then fs p else Some d)
   \<and> files (snd (WriteFile en f p perm w)) =
       (case write_error en p of
          Some err \<Rightarrow> files w
        | None \<Rightarrow> interrupted_write (length (write_steps p (RepoFile f))) p (RepoFile f) (files w))"
proof -
  have "k = 0 \<or> k = 1 \<or> k = 2 \<or> 3 \<le> k" by arith
  then have "interrupted_write k p d fs p = (if k < length (write_steps p d) then fs p else Some d)"
    using temp_path_neq [of p]
    by (auto simp: interrupted_write_def write_steps_def)
  then show ?thesis
    by (simp add: WriteFile_def split: option.splits)
qed


text \<open>A crash just before the rename, and the completed write.\<close>

theorem WriteFile_atomic_witness:
  "interrupted_write 2 ''repositories.yaml'' (RepoFile []) (files stable_world) ''repositories.yaml''
     = Some (RepoFile [sample_entry ''stable'' ''http://old''])
   \<and> interrupted_write 3 ''repositories.yaml'' (RepoFile []) (files stable_world) ''repositories.yaml''
     = Some (RepoFile [])"
  using WriteFile_atomic [of 2 "''repositories.yaml''" "RepoFile []" "files stable_world"]
    WriteFile_atomic [of 3 "''repositories.yaml''" "RepoFile []" "files stable_world"]
  by (simp add: write_steps_def stable_world_def)


text \<open>
  \<^bold>\<open>C6.\<close> With \<open>noUpdate\<close> set, if the registry found by the first load has an entry of the
  given name, the invocation returns the error that the name already exists, performs
  nothing but that load, and leaves every file as it was.
\<close>

theorem addRepository_duplicate_rejected:
  assumes run: "addRepository en name url username password home certFile keyFile caFile noUpdate w = (r, w')"
    and noUpdate: "noUpdate"
    and loaded: "parse (files w (RepositoryFile home)) = Inr f0"
    and present: "Has f0 name"
  shows "r = Some (RepoNameExists name) \<and> files w' = files w
       \<and> performed w w' = [EvLoad (RepositoryFile home)]"
  using run refl noUpdate loaded present
  by (cases rule: addRepository_paths) (simp_all add: performed_def)


text \<open>The name \<open>stable\<close> is registered already.\<close>

theorem addRepository_duplicate_rejected_witness:
  "fst (addRepository quiet_env ''stable'' ''http://new'' [] [] sample_home [] [] [] True stable_world)
     = Some (RepoNameExists ''stable'')
   \<and> files (snd (addRepository quiet_env ''stable'' ''http://new'' [] [] sample_home [] [] [] True
                  stable_world))
       = files stable_world"
proof -
  let ?run = "addRepository quiet_env ''stable'' ''http://new'' [] [] sample_home [] [] [] True stable_world"
  have run: "?run = (fst ?run, snd ?run)" by simp
  have present: "Has [sample_entry ''stable'' ''http://old''] ''stable''"
    by (simp add: Has_def sample_entry_def)
  from addRepository_duplicate_rejected [OF run TrueI sample_stable present]
  show ?thesis by simp
qed


text \<open>
  \<^bold>\<open>C7.\<close> Loading a registry file that does not exist gives the empty registry, not an
  error. An invocation on a home without a registry file, with nobody else creating one
  meanwhile and every collaborator working, succeeds and leaves a registry file that holds
  exactly the new entry.
\<close>

theorem addRepository_first_run:
  assumes run: "addRepository en name url username password home certFile keyFile caFile noUpdate w = (r, w')"
    and c: "c = \<lparr>Name = name, Cache = CacheIndex home name, URL = url, Username = username,
                   Password = password, CertFile = certFile, KeyFile = keyFile, CAFile = caFile\<rparr>"
    and absent: "files w (RepositoryFile home) = None"
    and alone: "concurrent en None = None"
    and getter: "NewChartRepository en c = None"
    and fetched: "remote_index en c = Inr idx"
    and locked: "TryLockContext (try_lock en) (30 * Second) Second 0 = (True, None)"
    and written: "write_error en (RepositoryFile home) = None"
    and paths: "CacheIndex home name \<noteq> RepositoryFile home"
  shows "fst (LoadRepositoriesFile (RepositoryFile home) w) = Inr []
       \<and> r = None
       \<and> files w' (RepositoryFile home) = Some (RepoFile [c])"
  using run c absent alone getter fetched locked written paths
  by (cases rule: addRepository_paths)
     (auto simp: NewChartRepository_def LoadRepositoriesFile_def parse_def Has_def)


text \<open>The first registration on an empty disk.\<close>

theorem addRepository_first_run_witness:
  "fst (addRepository quiet_env ''stable'' ''http://new'' [] [] sample_home [] [] [] False empty_world) = None
   \<and> files (snd (addRepository quiet_env ''stable'' ''http://new'' [] [] sample_home [] [] [] False
                  empty_world)) ''repositories.yaml''
       = Some (RepoFile [sample_entry ''stable'' ''http://new''])"
proof -
  let ?run = "addRepository quiet_env ''stable'' ''http://new'' [] [] sample_home [] [] [] False empty_world"
  have run: "?run = (fst ?run, snd ?run)" by simp
  have absent: "files empty_world (RepositoryFile sample_home) = None"
    by (simp add: sample_defs)
  have alone: "concurrent quiet_env None = None"
    by (simp add: quiet_env_def)
  from addRepository_first_run
         [OF run sample_entry_eq absent alone sample_quiet(1-4) sample_paths]
  show ?thesis by (simp add: sample_home_def)
qed


text \<open>
  \<^bold>\<open>C8.\<close> In the list of operations of any invocation no fetch comes at or after the
  first lock call, and when there is a lock call the fetch of the index is among the
  operations before it. The operations performed while the lock is held are the second
  load alone, or the second load followed by the write, and the lock is not held when the
  invocation returns.
\<close>

theorem addRepository_fetch_before_lock:
  assumes run: "addRepository en name url username password home certFile keyFile caFile noUpdate w = (r, w')"
  shows "filter is_fetch (dropWhile (\<lambda>e. \<not> is_try_lock e) (performed w w')) = []
       \<and> (filter is_try_lock (performed w w') \<noteq> [] \<longrightarrow>
            filter is_fetch (takeWhile (\<lambda>e. \<not> is_try_lock e) (performed w w')) = [EvFetch url])
       \<and> under_lock False (performed w w') \<in>
            {[], [EvLoad (RepositoryFile home)],
             [EvLoad (RepositoryFile home), EvWrite (RepositoryFile home) 420]}
       \<and> \<not> lock_held False (performed w w')"
  using run refl
  by (cases rule: addRepository_paths) (simp_all add: performed_def)


text \<open>An invocation that reaches the lock call and times out there.\<close>

theorem addRepository_fetch_before_lock_witness:
  "filter is_fetch
     (takeWhile (\<lambda>e. \<not> is_try_lock e)
        (performed stable_world
           (snd (addRepository busy_env ''new'' ''http://new'' [] [] sample_home [] [] [] False
                   stable_world)))) = [EvFetch ''http://new'']
   \<and> \<not> lock_held False
         (performed stable_world
            (snd (addRepository busy_env ''new'' ''http://new'' [] [] sample_home [] [] [] False
                    stable_world)))"
proof -
  let ?run = "addRepository busy_env ''new'' ''http://new'' [] [] sample_home [] [] [] False stable_world"
  have run: "?run = (fst ?run, snd ?run)" by simp
  have "filter is_try_lock (performed stable_world (snd ?run)) \<noteq> []"
    by (simp add: sample_busy_run(2))
  with addRepository_fetch_before_lock [OF run] show ?thesis by simp
qed


text \<open>
  \<^bold>\<open>C9.\<close> Two invocations in sequence with the same arguments and \<open>noUpdate\<close> unset, on a
  registry whose names are distinct, with every collaborator working and nobody else
  writing: both succeed, the registry then has exactly one entry of the name, the
  candidate entry, and the second invocation leaves the registry as the first one did.
\<close>

theorem addRepository_twice_one_entry:
  assumes run1: "addRepository en1 name url username password home certFile keyFile caFile False w = (r1, w1)"
    and run2: "addRepository en2 name url username password home certFile keyFile caFile False w1 = (r2, w2)"
    and c: "c = \<lparr>Name = name, Cache = CacheIndex home name, URL = url, Username = username,
                   Password = password, CertFile = certFile, KeyFile = keyFile, CAFile = caFile\<rparr>"
    and paths: "CacheIndex home name \<noteq> RepositoryFile home"
    and wellformed: "parse (files w (RepositoryFile home)) = Inr f0" "distinct (map Name f0)"
    and env1: "NewChartRepository en1 c = None" "remote_index en1 c = Inr idx1"
      "TryLockContext (try_lock en1) (30 * Second) Second 0 = (True, None)"
      "write_error en1 (RepositoryFile home) = None" "\<forall>x. concurrent en1 x = x"
    and env2: "NewChartRepository en2 c = None" "remote_index en2 c = Inr idx2"
      "TryLockContext (try_lock en2) (30 * Second) Second 0 = (True, None)"
      "write_error en2 (RepositoryFile home) = None" "\<forall>x. concurrent en2 x = x"
  shows "r1 = None \<and> r2 = None
       \<and> files w2 (RepositoryFile home) = Some (RepoFile (Update f0 c))
       \<and> filter (\<lambda>e. Name e = name) (Update f0 c) = [c]
       \<and> files w2 (RepositoryFile home) = files w1 (RepositoryFile home)"
proof -
  have w1: "r1 = None \<and> files w1 (RepositoryFile home) = Some (RepoFile (Update f0 c))"
    using run1 c paths wellformed(1) env1
    by (cases rule: addRepository_paths) (simp_all add: NewChartRepository_def)
  then have p1: "parse (files w1 (RepositoryFile home)) = Inr (Update f0 c)"
    by (simp add: parse_def)
  have w2: "r2 = None \<and> files w2 (RepositoryFile home) = Some (RepoFile (Update (Update f0 c) c))"
    using run2 c paths p1 env2
    by (cases rule: addRepository_paths) (simp_all add: NewChartRepository_def)
  have "Name c = name" by (simp add: c)
  with Update_filter [OF wellformed(2), of c] w1 w2 show ?thesis
    by (simp add: Update_idem)
qed


text \<open>Registering \<open>stable\<close> twice on an empty disk.\<close>

theorem addRepository_twice_one_entry_witness:
  "fst (addRepository quiet_env ''stable'' ''http://new'' [] [] sample_home [] [] [] False
          (snd (addRepository quiet_env ''stable'' ''http://new'' [] [] sample_home [] [] [] False
                  empty_world))) = None
   \<and> files (snd (addRepository quiet_env ''stable'' ''http://new'' [] [] sample_home [] [] [] False
                  (snd (addRepository quiet_env ''stable'' ''http://new'' [] [] sample_home [] [] []
                          False empty_world)))) ''repositories.yaml''
       = Some (RepoFile [sample_entry ''stable'' ''http://new''])"
proof -
  let ?run1 = "addRepository quiet_env ''stable'' ''http://new'' [] [] sample_home [] [] [] False empty_world"
  let ?run2 = "addRepository quiet_env ''stable'' ''http://new'' [] [] sample_home [] [] [] False (snd ?run1)"
  have run1: "?run1 = (fst ?run1, snd ?run1)" by simp
  have run2: "?run2 = (fst ?run2, snd ?run2)" by simp
  have wellformed: "distinct (map Name ([] :: Entry list))" by simp
  from addRepository_twice_one_entry
         [OF run1 run2 sample_entry_eq sample_paths sample_empty wellformed sample_quiet sample_quiet]
  show ?thesis by (simp add: sample_home_def)
qed


text \<open>
  \<^bold>\<open>C10.\<close> When the index has been fetched and the invocation fails afterwards (at the lock
  call, at the second load or at the write), the cached index stays where the fetch has
  put it, and the registry file holds what the other invocations have left in it.
\<close>

theorem addRepository_cache_persists:
  assumes run: "addRepository en name url username password home certFile keyFile caFile noUpdate w = (r, w')"
    and c: "c = \<lparr>Name = name, Cache = CacheIndex home name, URL = url, Username = username,
                   Password = password, CertFile = certFile, KeyFile = keyFile, CAFile = caFile\<rparr>"
    and first: "parse (files w (RepositoryFile home)) = Inr f0" "\<not> (noUpdate \<and> Has f0 name)"
    and getter: "NewChartRepository en c = None"
    and fetched: "remote_index en c = Inr idx"
    and paths: "CacheIndex home name \<noteq> RepositoryFile home"
    and failed: "r \<noteq> None"
  shows "files w' (CacheIndex home name) = Some (IndexFile idx)
       \<and> files w' (RepositoryFile home) = concurrent en (files w (RepositoryFile home))"
  using run c first getter fetched paths failed
  by (cases rule: addRepository_paths)
     (simp_all add: NewChartRepository_def)


text \<open>The index is cached, then the lock times out.\<close>

theorem addRepository_cache_persists_witness:
  "files (snd (addRepository busy_env ''new'' ''http://new'' [] [] sample_home [] [] [] False
                 stable_world)) ''cache/new-index.yaml''
     = Some (IndexFile ''index'')
   \<and> fst (addRepository busy_env ''new'' ''http://new'' [] [] sample_home [] [] [] False stable_world)
       \<noteq> None"
proof -
  let ?run = "addRepository busy_env ''new'' ''http://new'' [] [] sample_home [] [] [] False stable_world"
  have run: "?run = (fst ?run, snd ?run)" by simp
  have fresh: "\<not> (False \<and> Has [sample_entry ''stable'' ''http://old''] ''new'')" by simp
  have failed: "fst ?run \<noteq> None" by (simp add: sample_busy_run(1))
  from addRepository_cache_persists
         [OF run sample_entry_eq sample_stable fresh sample_busy_env(1,2) sample_paths failed] failed
  show ?thesis by (simp add: sample_home_def)
qed


end
